theory Spec2Isabelle
  imports Complex_Main
begin

section \<open>Python values used by the lecture's classes\<close>

text \<open>
  The classes of \<^verbatim>\<open>oop_lecture.py\<close> compute with Python numbers: every sample call passes
  an \<^verbatim>\<open>int\<close>, and \<^verbatim>\<open>ElectricScooter.drive\<close> multiplies by the float literal \<^verbatim>\<open>0.1\<close>.
  A number is therefore an \<^verbatim>\<open>int\<close> (unbounded, as in Python) or a \<^verbatim>\<open>float\<close>.  Floats are
  idealised as reals: rounding, infinities and NaN are outside this model.
  Strings are lists of 8-bit characters; the string operations below are Python's
  restricted to ASCII.
\<close>

datatype number = PyInt int | PyFloat real

text \<open>The mathematical value of a number; Python compares an int with a float by value.\<close>

fun num_val :: "number \<Rightarrow> real" where
  "num_val (PyInt i) = of_int i"
| "num_val (PyFloat r) = r"

text \<open>\<^verbatim>\<open>a + b\<close>, \<^verbatim>\<open>a - b\<close>, \<^verbatim>\<open>a * b\<close>: int with int stays int, anything else is a float.\<close>

fun num_add :: "number \<Rightarrow> number \<Rightarrow> number" where
  "num_add (PyInt a) (PyInt b) = PyInt (a + b)"
| "num_add a b = PyFloat (num_val a + num_val b)"

fun num_sub :: "number \<Rightarrow> number \<Rightarrow> number" where
  "num_sub (PyInt a) (PyInt b) = PyInt (a - b)"
| "num_sub a b = PyFloat (num_val a - num_val b)"

fun num_mul :: "number \<Rightarrow> number \<Rightarrow> number" where
  "num_mul (PyInt a) (PyInt b) = PyInt (a * b)"
| "num_mul a b = PyFloat (num_val a * num_val b)"

text \<open>\<^verbatim>\<open>a < b\<close> and \<^verbatim>\<open>a > b\<close>.\<close>

definition num_lt :: "number \<Rightarrow> number \<Rightarrow> bool" where
  "num_lt a b = (num_val a < num_val b)"

definition num_gt :: "number \<Rightarrow> number \<Rightarrow> bool" where
  "num_gt a b = (num_val a > num_val b)"

text \<open>The exceptions the modelled code can raise.\<close>

datatype error = ValueError | TypeError | NameError | AttributeError

section \<open>Encapsulation: BankAccount\<close>

text \<open>
  \<^verbatim>\<open>
  class BankAccount:
      def __init__(self, owner, balance=0):
          self.owner = owner
          self.__balance = balance
      def deposit(self, amount):
          if amount > 0:
              self.__balance += amount
      def get_balance(self):
          return self.__balance
  \<close>
  The methods mutate \<^verbatim>\<open>self\<close>; the model returns the updated object.
\<close>

record bank_account =
  owner :: string
  balance :: number




section \<open>Strings\<close>



text \<open>\<^verbatim>\<open>str(i)\<close> for an int, as an f-string renders it: decimal, with a minus sign when negative.\<close>

definition digit_char :: "nat \<Rightarrow> char" where
  "digit_char d = ''0123456789'' ! d"

fun digits :: "nat \<Rightarrow> string" where
  "digits n = (if n < 10 then [digit_char n] else digits (n div 10) @ [digit_char (n mod 10)])"

definition str_int :: "int \<Rightarrow> string" where
  "str_int i = (if i < 0 then CHR ''-'' # digits (nat (- i)) else digits (nat i))"

text \<open>
  \<^verbatim>\<open>str(x)\<close> for a number.  The rendering of a float (\<^verbatim>\<open>float.__repr__\<close>) belongs to the
  interpreter, not to this module: it is the parameter \<open>float_repr\<close> of everything that formats.
\<close>

fun py_str :: "(real \<Rightarrow> string) \<Rightarrow> number \<Rightarrow> string" where
  "py_str float_repr (PyInt i) = str_int i"
| "py_str float_repr (PyFloat r) = float_repr r"

text \<open>\<^verbatim>\<open>s.split(sep)\<close> with a one-character separator: n separators give n + 1 fields.\<close>

fun str_split :: "char \<Rightarrow> string \<Rightarrow> string list" where
  "str_split sep [] = [[]]"
| "str_split sep (c # cs) =
     (if c = sep then [] # str_split sep cs
      else (case str_split sep cs of
              [] \<Rightarrow> [[c]]
            | f # fs \<Rightarrow> (c # f) # fs))"








section \<open>Class methods: Shape and Circle\<close>


datatype shape = ShapeObj (name: string) | CircleObj (name: string)




fun describe :: "shape \<Rightarrow> string" where
  "describe (ShapeObj nm) = ''This is a shape named '' @ nm"
| "describe (CircleObj nm) = ''A circle named '' @ nm"

section \<open>The vehicle hierarchy\<close>

text \<open>
  \<^verbatim>\<open>
  class Vehicle:
      def __init__(self, make, model, year):
          self.make = make
          self.model = model
          self.year = year
          self._mileage = 0
      def drive(self, distance):
          if distance > 0:
              self._mileage += distance
      def get_info(self):
          return f"{self.year} {self.make} {self.model}, Mileage: {self._mileage}"
      def __str__(self):
          return self.get_info()
      @classmethod
      def from_string(cls, string):
          make, model, year = string.split('-')
          return cls(make, model, int(year))
  \<close>
  The attributes every vehicle has are a record; an object is one of the three classes,
  with the attribute its class adds.  (The field \<^verbatim>\<open>make\<close> is \<open>make_name\<close>: a record has a
  function \<open>make\<close> of its own.)
\<close>

record vehicle_attrs =
  make_name :: string
  model :: string
  year :: int
  mileage :: number

datatype vehicle =
    VehicleObj (attrs: vehicle_attrs)
  | CarObj (attrs: vehicle_attrs) (fuel_capacity: number)
  | ElectricScooterObj (attrs: vehicle_attrs) (battery_percentage: number)


definition Vehicle_init :: "string \<Rightarrow> string \<Rightarrow> int \<Rightarrow> vehicle_attrs" where
  "Vehicle_init mk md yr = \<lparr>make_name = mk, model = md, year = yr, mileage = PyInt 0\<rparr>"


text \<open>
  \<^verbatim>\<open>
  class Car(Vehicle):
      vehicle_type = "Car"
      def __init__(self, make, model, year, fuel_capacity):
          super().__init__(make, model, year)
          self.fuel_capacity = fuel_capacity
      def get_info(self):
          return f"{super().get_info()}, Fuel Capacity: {self.fuel_capacity}"

  class ElectricScooter(Vehicle):
      def __init__(self, make, model, year, battery_percentage):
          super().__init__(make, model, year)
          self.battery_percentage = battery_percentage
      def drive(self, distance):
          super().drive(distance)
          self.battery_percentage -= distance * 0.1
          if self.battery_percentage < 0:
              self.battery_percentage = 0
      def get_info(self):
          return f"{super().get_info()}, Battery: {self.battery_percentage}%"
      @staticmethod
      def is_charging_required():
          return self.battery_percentage < 20
  \<close>
\<close>

definition Car :: "string \<Rightarrow> string \<Rightarrow> int \<Rightarrow> number \<Rightarrow> vehicle" where
  "Car mk md yr fc = CarObj (Vehicle_init mk md yr) fc"

definition ElectricScooter :: "string \<Rightarrow> string \<Rightarrow> int \<Rightarrow> number \<Rightarrow> vehicle" where
  "ElectricScooter mk md yr bp = ElectricScooterObj (Vehicle_init mk md yr) bp"

text \<open>\<^verbatim>\<open>Vehicle.drive\<close>, which Car inherits and ElectricScooter calls through \<^verbatim>\<open>super()\<close>.\<close>

definition Vehicle_drive :: "vehicle_attrs \<Rightarrow> number \<Rightarrow> vehicle_attrs" where
  "Vehicle_drive self distance =
     (if num_gt distance (PyInt 0)
      then self\<lparr>mileage := num_add (mileage self) distance\<rparr>
      else self)"

text \<open>\<^verbatim>\<open>v.drive(distance)\<close>, dispatched on the class of \<open>v\<close>.\<close>

fun drive :: "vehicle \<Rightarrow> number \<Rightarrow> vehicle" where
  "drive (VehicleObj a) distance = VehicleObj (Vehicle_drive a distance)"
| "drive (CarObj a fc) distance = CarObj (Vehicle_drive a distance) fc"
| "drive (ElectricScooterObj a bp) distance =
     (let a' = Vehicle_drive a distance;
          bp' = num_sub bp (num_mul distance (PyFloat 0.1))
      in ElectricScooterObj a' (if num_lt bp' (PyInt 0) then PyInt 0 else bp'))"

definition Vehicle_get_info :: "(real \<Rightarrow> string) \<Rightarrow> vehicle_attrs \<Rightarrow> string" where
  "Vehicle_get_info float_repr self =
     str_int (year self) @ '' '' @ make_name self @ '' '' @ model self
       @ '', Mileage: '' @ py_str float_repr (mileage self)"

text \<open>\<^verbatim>\<open>v.get_info()\<close>, dispatched on the class of \<open>v\<close>; the overrides call the base method.\<close>

fun get_info :: "(real \<Rightarrow> string) \<Rightarrow> vehicle \<Rightarrow> string" where
  "get_info float_repr (VehicleObj a) = Vehicle_get_info float_repr a"
| "get_info float_repr (CarObj a fc) =
     Vehicle_get_info float_repr a @ '', Fuel Capacity: '' @ py_str float_repr fc"
| "get_info float_repr (ElectricScooterObj a bp) =
     Vehicle_get_info float_repr a @ '', Battery: '' @ py_str float_repr bp @ ''%''"

text \<open>
  \<^verbatim>\<open>Vehicle.__str__\<close> calls \<^verbatim>\<open>self.get_info()\<close> on the object it is given.  \<^verbatim>\<open>str(v)\<close> looks
  \<^verbatim>\<open>__str__\<close> up in the class of \<open>v\<close> and then in its bases: only Vehicle defines it.
\<close>

definition Vehicle_str :: "(real \<Rightarrow> string) \<Rightarrow> vehicle \<Rightarrow> string" where
  "Vehicle_str float_repr self = get_info float_repr self"

fun str :: "(real \<Rightarrow> string) \<Rightarrow> vehicle \<Rightarrow> string" where
  "str float_repr (VehicleObj a) = Vehicle_str float_repr (VehicleObj a)"
| "str float_repr (CarObj a fc) = Vehicle_str float_repr (CarObj a fc)"
| "str float_repr (ElectricScooterObj a bp) = Vehicle_str float_repr (ElectricScooterObj a bp)"



text \<open>
  A static method gets neither the object nor the class.  The body of
  \<^verbatim>\<open>is_charging_required\<close> has no parameter and no local variable, so its name \<^verbatim>\<open>self\<close> is
  looked up among the globals of the module, and an unbound name raises \<^verbatim>\<open>NameError\<close>.
\<close>

definition is_charging_required :: "(string \<rightharpoonup> vehicle) \<Rightarrow> error + bool" where
  "is_charging_required globals =
     (case globals ''self'' of
        None \<Rightarrow> Inl NameError
      | Some self \<Rightarrow>
          (case self of
             ElectricScooterObj a bp \<Rightarrow> Inr (num_lt bp (PyInt 20))
           | _ \<Rightarrow> Inl AttributeError))"

text \<open>
  \<^verbatim>\<open>v.is_charging_required()\<close>: the attribute is found in the class ElectricScooter only, and
  the function is called without \<open>v\<close>.
\<close>

fun call_is_charging_required :: "(string \<rightharpoonup> vehicle) \<Rightarrow> vehicle \<Rightarrow> error + bool" where
  "call_is_charging_required globals (ElectricScooterObj a bp) = is_charging_required globals"
| "call_is_charging_required globals v = Inl AttributeError"




section \<open>Polymorphism: print_vehicle_report\<close>

text \<open>
  \<^verbatim>\<open>
  def print_vehicle_report(vehicles):
      for vehicle in vehicles:
          print(vehicle.get_info())
  \<close>
  The list may hold any object.  Of the classes modelled here the vehicles have
  \<^verbatim>\<open>get_info\<close>; on a shape or an account the attribute lookup raises \<^verbatim>\<open>AttributeError\<close>.
  Standard output is the list of the lines printed so far.
\<close>

datatype pyobj = AVehicle vehicle | AShape shape | AnAccount bank_account

fun obj_get_info :: "(real \<Rightarrow> string) \<Rightarrow> pyobj \<Rightarrow> error + string" where
  "obj_get_info float_repr (AVehicle v) = Inr (get_info float_repr v)"
| "obj_get_info float_repr (AShape s) = Inl AttributeError"
| "obj_get_info float_repr (AnAccount a) = Inl AttributeError"

fun print_vehicle_report ::
  "(real \<Rightarrow> string) \<Rightarrow> pyobj list \<Rightarrow> string list \<Rightarrow> error option \<times> string list" where
  "print_vehicle_report float_repr [] out = (None, out)"
| "print_vehicle_report float_repr (vehicle # vehicles) out =
     (case obj_get_info float_repr vehicle of
        Inl e \<Rightarrow> (Some e, out)
      | Inr line \<Rightarrow> print_vehicle_report float_repr vehicles (out @ [line]))"

section \<open>Facts about numbers\<close>




section \<open>BankAccount.deposit\<close>



section \<open>Shape.from_description\<close>




section \<open>Vehicle.from_string\<close>



lemma str_split_no_sep: "f \<in> set (str_split sep s) \<Longrightarrow> sep \<notin> set f"
  by (induction s arbitrary: f) (auto split: list.splits if_splits)








section \<open>drive\<close>


lemma attrs_drive: "attrs (drive v d) = Vehicle_drive (attrs v) d"
  by (cases v) (simp_all add: Let_def)






text \<open>
  What does hold of a distance that is not positive: a Vehicle and a Car are left as they
  were, and of an ElectricScooter the base attributes (the mileage among them) are.
\<close>

lemma drive_nonpositive_base:
  assumes "num_val distance \<le> 0"
  shows "drive (VehicleObj a) distance = VehicleObj a"
    and "drive (CarObj a fc) distance = CarObj a fc"
    and "attrs (drive v distance) = attrs v"
  using assms by (simp_all add: attrs_drive Vehicle_drive_def num_gt_def)

text \<open>
  C2 (the code departs from it): the claim is that \<^verbatim>\<open>drive\<close> with a distance of at most 0
  leaves every vehicle, the battery of an ElectricScooter included, as it was.  On the
  scooter of the sample, with battery 85, \<^verbatim>\<open>drive(-100)\<close> leaves the mileage at 0 but
  returns a scooter whose battery is 95.0: the override subtracts \<^verbatim>\<open>distance * 0.1\<close>
  without the guard \<^verbatim>\<open>distance > 0\<close> of the base method.
\<close>

theorem scooter_drive_negative_distance:
  "drive (ElectricScooter ''Xiaomi'' ''M365'' 2022 (PyInt 85)) (PyInt (- 100))
     = ElectricScooter ''Xiaomi'' ''M365'' 2022 (PyFloat 95)
   \<and> drive (ElectricScooter ''Xiaomi'' ''M365'' 2022 (PyInt 85)) (PyInt (- 100))
     \<noteq> ElectricScooter ''Xiaomi'' ''M365'' 2022 (PyInt 85)
   \<and> num_val (battery_percentage
        (drive (ElectricScooter ''Xiaomi'' ''M365'' 2022 (PyInt 85)) (PyInt (- 100)))) = 95"
  by (simp add: ElectricScooter_def Vehicle_drive_def num_gt_def num_lt_def)




section \<open>get_info and the string conversion\<close>

text \<open>
  C7: \<^verbatim>\<open>Car("Toyota", "Corolla", 2020, 50)\<close>, then \<^verbatim>\<open>drive(100)\<close>, then \<^verbatim>\<open>get_info()\<close> returns
  \<^verbatim>\<open>2020 Toyota Corolla, Mileage: 100, Fuel Capacity: 50\<close>: the year, the make, the model,
  the mileage 100 and the fuel capacity 50, in this order.  For every Car the rendering is
  the rendering of the base class, followed by the fuel capacity.
\<close>

theorem car_get_info_end_to_end:
  "get_info float_repr (drive (Car ''Toyota'' ''Corolla'' 2020 (PyInt 50)) (PyInt 100))
     = ''2020 Toyota Corolla, Mileage: 100, Fuel Capacity: 50''
   \<and> get_info float_repr (CarObj a fc)
     = get_info float_repr (VehicleObj a) @ '', Fuel Capacity: '' @ py_str float_repr fc"
  by (simp add: Car_def Vehicle_init_def Vehicle_drive_def num_gt_def Vehicle_get_info_def
      str_int_def digit_char_def)

text \<open>
  C10: for every vehicle of any of the three classes, in every state, \<^verbatim>\<open>str(v)\<close> is the same
  string as \<^verbatim>\<open>v.get_info()\<close>, with the fuel capacity of a Car and the battery of an
  ElectricScooter.
\<close>

theorem str_is_get_info:
  "str float_repr v = get_info float_repr v
   \<and> str float_repr (CarObj a fc)
       = Vehicle_get_info float_repr a @ '', Fuel Capacity: '' @ py_str float_repr fc
   \<and> str float_repr (ElectricScooterObj a bp)
       = Vehicle_get_info float_repr a @ '', Battery: '' @ py_str float_repr bp @ ''%''"
  by (cases v) (simp_all add: Vehicle_str_def)

section \<open>ElectricScooter.is_charging_required\<close>

text \<open>
  C8 (the code departs from it): the claim is that \<^verbatim>\<open>is_charging_required()\<close> returns True
  exactly when the battery is below 20.  Called on a scooter with battery 10, in a module
  whose globals bind the scooter to \<^verbatim>\<open>v\<close> and nothing to \<^verbatim>\<open>self\<close>, it raises \<^verbatim>\<open>NameError\<close>
  and returns nothing.
\<close>

theorem is_charging_required_raises:
  "call_is_charging_required
      [''v'' \<mapsto> ElectricScooter ''Xiaomi'' ''M365'' 2022 (PyInt 10)]
      (ElectricScooter ''Xiaomi'' ''M365'' 2022 (PyInt 10)) = Inl NameError"
  by (simp add: ElectricScooter_def is_charging_required_def)

section \<open>print_vehicle_report\<close>

lemma report_prefix:
  "\<forall>v \<in> set pre. \<exists>line. obj_get_info fr v = Inr line \<Longrightarrow>
   print_vehicle_report fr (pre @ rest) out =
     print_vehicle_report fr rest (out @ map (\<lambda>v. projr (obj_get_info fr v)) pre)"
proof (induction pre arbitrary: out)
  case Nil
  show ?case by simp
next
  case (Cons v pre)
  then obtain line where l: "obj_get_info fr v = Inr line" by auto
  from Cons.prems have "\<forall>v \<in> set pre. \<exists>line. obj_get_info fr v = Inr line" by simp
  from Cons.IH [OF this, of "out @ [line]"] l show ?case by simp
qed

text \<open>
  C9: when \<^verbatim>\<open>get_info\<close> succeeds on every element, \<^verbatim>\<open>print_vehicle_report\<close> returns normally
  and has printed the results of \<^verbatim>\<open>get_info\<close>, one line per element, in the order of the
  list.  When \<^verbatim>\<open>get_info\<close> fails on an element, the lines of the elements before it have been
  printed, the error is raised to the caller, and nothing of that element or of any later
  one is printed: the outcome does not depend on the rest of the list.  A list of vehicles
  prints the \<^verbatim>\<open>get_info\<close> of each.
\<close>

theorem print_vehicle_report_order:
  "((\<forall>v \<in> set vs. \<exists>line. obj_get_info fr v = Inr line) \<longrightarrow>
      print_vehicle_report fr vs out = (None, out @ map (\<lambda>v. projr (obj_get_info fr v)) vs))
   \<and> ((\<forall>v \<in> set pre. \<exists>line. obj_get_info fr v = Inr line) \<and> obj_get_info fr bad = Inl e \<longrightarrow>
      print_vehicle_report fr (pre @ bad # post) out
        = (Some e, out @ map (\<lambda>v. projr (obj_get_info fr v)) pre))
   \<and> print_vehicle_report fr (map AVehicle vehicles) out
        = (None, out @ map (get_info fr) vehicles)"
proof -
  have all: "print_vehicle_report fr vs out = (None, out @ map (\<lambda>v. projr (obj_get_info fr v)) vs)"
    if "\<forall>v \<in> set vs. \<exists>line. obj_get_info fr v = Inr line" for vs
    using report_prefix [OF that, of "[]" out] by simp
  have stop: "print_vehicle_report fr (pre @ bad # post) out
        = (Some e, out @ map (\<lambda>v. projr (obj_get_info fr v)) pre)"
    if "\<forall>v \<in> set pre. \<exists>line. obj_get_info fr v = Inr line" and "obj_get_info fr bad = Inl e"
    using report_prefix [OF that(1), of "bad # post" out] that(2) by simp
  have veh: "print_vehicle_report fr (map AVehicle vehicles) out
        = (None, out @ map (get_info fr) vehicles)"
    using all [of "map AVehicle vehicles"] by (simp add: comp_def)
  show ?thesis using all stop veh by blast
qed

theorem print_vehicle_report_order_witness:
  "print_vehicle_report (\<lambda>r. ''85.0'')
      [AVehicle (Car ''Toyota'' ''Corolla'' 2020 (PyInt 50)),
       AVehicle (ElectricScooter ''Xiaomi'' ''M365'' 2022 (PyFloat 85))] []
     = (None, [''2020 Toyota Corolla, Mileage: 0, Fuel Capacity: 50'',
               ''2022 Xiaomi M365, Mileage: 0, Battery: 85.0%''])
   \<and> print_vehicle_report (\<lambda>r. ''85.0'')
      [AVehicle (Car ''Toyota'' ''Corolla'' 2020 (PyInt 50)),
       AShape (ShapeObj ''HEXAGON''),
       AVehicle (ElectricScooter ''Xiaomi'' ''M365'' 2022 (PyFloat 85))] []
     = (Some AttributeError, [''2020 Toyota Corolla, Mileage: 0, Fuel Capacity: 50''])"
proof -
  let ?fr = "\<lambda>r::real. ''85.0''"
  let ?car = "AVehicle (Car ''Toyota'' ''Corolla'' 2020 (PyInt 50))"
  let ?sc = "AVehicle (ElectricScooter ''Xiaomi'' ''M365'' 2022 (PyFloat 85))"
  have car: "obj_get_info ?fr ?car = Inr ''2020 Toyota Corolla, Mileage: 0, Fuel Capacity: 50''"
    by (simp add: Car_def Vehicle_init_def Vehicle_get_info_def str_int_def digit_char_def)
  have sc: "obj_get_info ?fr ?sc = Inr ''2022 Xiaomi M365, Mileage: 0, Battery: 85.0%''"
    by (simp add: ElectricScooter_def Vehicle_init_def Vehicle_get_info_def str_int_def
        digit_char_def)
  have bad: "obj_get_info ?fr (AShape (ShapeObj ''HEXAGON'')) = Inl AttributeError"
    by simp
  have ok2: "\<forall>v \<in> set [?car, ?sc]. \<exists>line. obj_get_info ?fr v = Inr line"
    using car sc by simp
  have ok1: "\<forall>v \<in> set [?car]. \<exists>line. obj_get_info ?fr v = Inr line"
    using car by simp
  from print_vehicle_report_order [of "[?car, ?sc]" ?fr "[]" "[?car]" "AShape (ShapeObj ''HEXAGON'')"
      AttributeError "[?sc]" "[]"] ok2 ok1 bad
  have "print_vehicle_report ?fr [?car, ?sc] []
          = (None, [] @ map (\<lambda>v. projr (obj_get_info ?fr v)) [?car, ?sc])"
    and "print_vehicle_report ?fr ([?car] @ AShape (ShapeObj ''HEXAGON'') # [?sc]) []
          = (Some AttributeError, [] @ map (\<lambda>v. projr (obj_get_info ?fr v)) [?car])"
    by blast+
  then show ?thesis
    unfolding list.map car sc by simp
qed

end
